theory Spec2Isabelle
  imports
    Complex_Main
    "HOL-Library.AList"
    "HOL-Library.Char_ord"
    "HOL-Library.List_Lexorder"
    "HOL-Library.Product_Lexorder"
begin

section \<open>Network telemetry analytics pipeline (network\_analytics/pipeline.py)\<close>

text \<open>
  The pipeline works on a pandas DataFrame of telemetry records. The embedding keeps the
  row order of the frame and the fixed schema of the telemetry columns.

  Numbers: a telemetry cell is a finite number, modelled as a \<open>real\<close>. A value computed
  by pandas that can be \<open>NaN\<close> or infinite (a mean or a standard deviation of too few
  samples, a quotient) is a \<open>float64\<close>, which has these as values of their own. The
  functions compute in exact arithmetic; the statistics of the detector are given a second
  time with the rounding of every arithmetic result explicit, and binary64 rounding is
  defined for them.
\<close>

subsection \<open>Data model\<close>

type_synonym timestamp = int

record telemetry_record =
  timestamp :: timestamp
  device_id :: string
  region :: string
  traffic_mbps :: real
  latency_ms :: real
  packet_loss_pct :: real
  cpu_utilization_pct :: real

text \<open>
  A DataFrame: the telemetry rows in row order, and the further numeric columns in column
  order, each with its name (a column assigned with \<open>df[name] = values\<close>) and aligned
  with the rows.
\<close>

record dataframe =
  rows :: "telemetry_record list"
  extra :: "(string \<times> real list) list"

datatype float64 = Fin real | NaN | PosInf | NegInf

text \<open>
  The rows of the result of \<open>compute_latency_stats\<close>. The columns \<open>region\<close> and
  \<open>device_id\<close> carry the prefix \<open>ls_\<close> here, since a field name belongs to one record
  type.
\<close>

record latency_stats =
  ls_region :: string
  ls_device_id :: string
  mean_latency_ms :: float64
  median_latency_ms :: float64
  max_latency_ms :: float64
  latency_std_ms :: float64
  samples :: nat

subsection \<open>pandas reductions of a numeric column\<close>

text \<open>\<open>Series.mean()\<close>: \<open>NaN\<close> for no values.\<close>

definition series_mean :: "real list \<Rightarrow> float64" where
  "series_mean xs = (if xs = [] then NaN else Fin (sum_list xs / real (length xs)))"

text \<open>
  \<open>Series.std(ddof)\<close> and the group-wise \<open>std\<close>: the square root of the sum of the
  squared deviations from the mean over \<open>n - ddof\<close>, and \<open>NaN\<close> when \<open>n \<le> ddof\<close>.
  An aggregation named \<open>"std"\<close> has pandas' default \<open>ddof = 1\<close>.
\<close>

definition series_std :: "nat \<Rightarrow> real list \<Rightarrow> float64" where
  "series_std ddof xs =
     (if length xs \<le> ddof then NaN
      else (let m = sum_list xs / real (length xs)
            in Fin (sqrt (sum_list (map (\<lambda>x. (x - m)\<^sup>2) xs) / real (length xs - ddof)))))"

text \<open>\<open>Series.median()\<close>: the middle of the sorted values, the mean of the two middle ones
  when their number is even.\<close>

definition series_median :: "real list \<Rightarrow> float64" where
  "series_median xs =
     (let ys = sort xs; n = length ys
      in if n = 0 then NaN
         else if odd n then Fin (ys ! (n div 2))
         else Fin ((ys ! (n div 2 - 1) + ys ! (n div 2)) / 2))"

fun series_max :: "real list \<Rightarrow> float64" where
  "series_max [] = NaN"
| "series_max (x # xs) = Fin (fold max xs x)"

subsection \<open>\<open>groupby\<close>\<close>

text \<open>
  \<open>df.groupby(keys)\<close> has one group for each distinct key among the rows, the groups in
  ascending order of the key, and each group's rows in their order in the frame.
\<close>

definition group_keys :: "('r \<Rightarrow> 'k::linorder) \<Rightarrow> 'r list \<Rightarrow> 'k list" where
  "group_keys key rs = sort (remdups (map key rs))"

definition group_rows :: "('r \<Rightarrow> 'k) \<Rightarrow> 'r list \<Rightarrow> 'k \<Rightarrow> 'r list" where
  "group_rows key rs k = filter (\<lambda>r. key r = k) rs"

subsection \<open>\<open>compute_latency_stats\<close>\<close>

definition region_device :: "telemetry_record \<Rightarrow> string \<times> string" where
  "region_device r = (region r, device_id r)"

definition latency_agg :: "string \<times> string \<Rightarrow> real list \<Rightarrow> latency_stats" where
  "latency_agg k xs =
     \<lparr>ls_region = fst k, ls_device_id = snd k,
      mean_latency_ms = series_mean xs,
      median_latency_ms = series_median xs,
      max_latency_ms = series_max xs,
      latency_std_ms = series_std 1 xs,
      samples = length xs\<rparr>"

definition compute_latency_stats :: "dataframe \<Rightarrow> latency_stats list" where
  "compute_latency_stats df =
     map (\<lambda>k. latency_agg k (map latency_ms (group_rows region_device (rows df) k)))
       (group_keys region_device (rows df))"

subsection \<open>Element-wise arithmetic on columns\<close>

text \<open>
  numpy's arithmetic raises nothing: a quotient by zero is an infinity or \<open>NaN\<close>, and
  \<open>NaN\<close> compares false. The zero of a divisor is the positive one (a standard deviation
  is never the negative zero).
\<close>

fun float_sub :: "float64 \<Rightarrow> float64 \<Rightarrow> float64" where
  "float_sub (Fin a) (Fin b) = Fin (a - b)"
| "float_sub NaN _ = NaN"
| "float_sub _ NaN = NaN"
| "float_sub PosInf PosInf = NaN"
| "float_sub NegInf NegInf = NaN"
| "float_sub PosInf _ = PosInf"
| "float_sub NegInf _ = NegInf"
| "float_sub (Fin a) PosInf = NegInf"
| "float_sub (Fin a) NegInf = PosInf"

fun float_div :: "float64 \<Rightarrow> float64 \<Rightarrow> float64" where
  "float_div (Fin a) (Fin b) =
     (if b = 0 then (if a = 0 then NaN else if 0 < a then PosInf else NegInf)
      else Fin (a / b))"
| "float_div NaN _ = NaN"
| "float_div _ NaN = NaN"
| "float_div (Fin a) _ = Fin 0"
| "float_div PosInf (Fin b) = (if 0 \<le> b then PosInf else NegInf)"
| "float_div NegInf (Fin b) = (if 0 \<le> b then NegInf else PosInf)"
| "float_div PosInf _ = NaN"
| "float_div NegInf _ = NaN"

fun float_gt :: "float64 \<Rightarrow> real \<Rightarrow> bool" where
  "float_gt (Fin a) t = (t < a)"
| "float_gt PosInf t = True"
| "float_gt _ t = False"

text \<open>Python's \<open>x or d\<close> on numbers: \<open>d\<close> when \<open>x\<close> is zero, else \<open>x\<close> (\<open>NaN\<close> is true).\<close>

definition float_or :: "float64 \<Rightarrow> real \<Rightarrow> float64" where
  "float_or x d = (if x = Fin 0 then Fin d else x)"

definition series_gt :: "real list \<Rightarrow> real \<Rightarrow> bool list" where
  "series_gt xs t = map (\<lambda>x. t < x) xs"

definition floats_gt :: "float64 list \<Rightarrow> real \<Rightarrow> bool list" where
  "floats_gt zs t = map (\<lambda>z. float_gt z t) zs"

definition mask_or :: "bool list \<Rightarrow> bool list \<Rightarrow> bool list" where
  "mask_or a b = map2 (\<or>) a b"

text \<open>\<open>(xs - xs.mean()) / sd\<close>\<close>

definition z_scores :: "real list \<Rightarrow> float64 \<Rightarrow> float64 list" where
  "z_scores xs sd = map (\<lambda>x. float_div (float_sub (Fin x) (series_mean xs)) sd) xs"

text \<open>\<open>df.loc[mask]\<close>: the rows at the positions where the mask is true, in row order.\<close>

definition loc_mask :: "'r list \<Rightarrow> bool list \<Rightarrow> 'r list" where
  "loc_mask rs m = map fst (filter snd (zip rs m))"

subsection \<open>\<open>detect_performance_bottlenecks\<close>\<close>

datatype py_error = ZeroDivisionError | KeyError

text \<open>
  The description is an f-string; its pieces are kept apart, the rendering of a timestamp
  and of a number as text being Python's.
\<close>

datatype fragment = Lit string | Stamp timestamp | Number real

record bottleneck =
  bn_device_id :: string
  bn_region :: string
  metric :: string
  severity :: real
  description :: "fragment list"

definition latency_std :: "dataframe \<Rightarrow> float64" where
  "latency_std df = float_or (series_std 0 (map latency_ms (rows df))) 1"

definition loss_std :: "dataframe \<Rightarrow> float64" where
  "loss_std df = float_or (series_std 0 (map packet_loss_pct (rows df))) 1"

definition z_latency :: "dataframe \<Rightarrow> float64 list" where
  "z_latency df = z_scores (map latency_ms (rows df)) (latency_std df)"

definition z_loss :: "dataframe \<Rightarrow> float64 list" where
  "z_loss df = z_scores (map packet_loss_pct (rows df)) (loss_std df)"

definition anomaly_mask :: "dataframe \<Rightarrow> real \<Rightarrow> real \<Rightarrow> real \<Rightarrow> bool list" where
  "anomaly_mask df latency_threshold_ms packet_loss_threshold_pct cpu_threshold_pct =
     mask_or (mask_or (mask_or (mask_or
       (series_gt (map latency_ms (rows df)) latency_threshold_ms)
       (series_gt (map packet_loss_pct (rows df)) packet_loss_threshold_pct))
       (series_gt (map cpu_utilization_pct (rows df)) cpu_threshold_pct))
       (floats_gt (z_latency df) (5 / 2)))
       (floats_gt (z_loss df) (5 / 2))"

text \<open>Python's \<open>/\<close> on its own floats raises on a zero divisor.\<close>

definition truediv :: "real \<Rightarrow> real \<Rightarrow> py_error + real" where
  "truediv a b = (if b = 0 then Inl ZeroDivisionError else Inr (a / b))"

text \<open>
  Python's \<open>round(x, 2)\<close>: to the nearest multiple of a hundredth, a tie to the even one.
\<close>

definition round_half_even :: "real \<Rightarrow> int" where
  "round_half_even y =
     (let f = \<lfloor>y\<rfloor>; d = y - of_int f
      in if d < 1 / 2 then f else if 1 / 2 < d then f + 1
         else if even f then f else f + 1)"

definition round2 :: "real \<Rightarrow> real" where
  "round2 x = of_int (round_half_even (x * 100)) / 100"

text \<open>Lines 72 to 76: the three arguments are evaluated in order, then their maximum.\<close>

definition overshoot :: "real \<Rightarrow> real \<Rightarrow> real \<Rightarrow> telemetry_record \<Rightarrow> py_error + real" where
  "overshoot latency_threshold_ms packet_loss_threshold_pct cpu_threshold_pct record =
     (case truediv (latency_ms record - latency_threshold_ms) latency_threshold_ms of
        Inl e \<Rightarrow> Inl e
      | Inr a \<Rightarrow>
     (case truediv (packet_loss_pct record - packet_loss_threshold_pct)
             (max packet_loss_threshold_pct (1 / 10 ^ 6)) of
        Inl e \<Rightarrow> Inl e
      | Inr b \<Rightarrow>
     (case truediv (cpu_utilization_pct record - cpu_threshold_pct) cpu_threshold_pct of
        Inl e \<Rightarrow> Inl e
      | Inr c \<Rightarrow> Inr (max (max a b) c))))"

definition make_bottleneck :: "telemetry_record \<Rightarrow> real \<Rightarrow> bottleneck" where
  "make_bottleneck record sev =
     \<lparr>bn_device_id = device_id record,
      bn_region = region record,
      metric = ''latency/packet_loss/cpu'',
      severity = round2 (max sev 0),
      description =
        [Lit ''High latency and loss event observed'',
         Lit '' at '', Stamp (timestamp record), Lit '' (latency '',
         Number (latency_ms record), Lit '' ms,'',
         Lit '' loss '', Number (packet_loss_pct record), Lit ''%).'']\<rparr>"

text \<open>The loop of lines 71 to 89 over the selected records, appending to \<open>bottlenecks\<close>.\<close>

fun detect_loop ::
  "real \<Rightarrow> real \<Rightarrow> real \<Rightarrow> telemetry_record list \<Rightarrow> bottleneck list \<Rightarrow> py_error + bottleneck list"
where
  "detect_loop lt pt ct [] bottlenecks = Inr bottlenecks"
| "detect_loop lt pt ct (record # records) bottlenecks =
     (case overshoot lt pt ct record of
        Inl e \<Rightarrow> Inl e
      | Inr sev \<Rightarrow> detect_loop lt pt ct records (bottlenecks @ [make_bottleneck record sev]))"

definition detect_performance_bottlenecks ::
  "dataframe \<Rightarrow> real \<Rightarrow> real \<Rightarrow> real \<Rightarrow> py_error + bottleneck list"
where
  "detect_performance_bottlenecks df latency_threshold_ms packet_loss_threshold_pct cpu_threshold_pct =
     detect_loop latency_threshold_ms packet_loss_threshold_pct cpu_threshold_pct
       (loc_mask (rows df)
          (anomaly_mask df latency_threshold_ms packet_loss_threshold_pct cpu_threshold_pct))
       []"

text \<open>The defaults of the keyword arguments.\<close>

definition default_latency_threshold_ms :: real where
  "default_latency_threshold_ms = 120"

definition default_packet_loss_threshold_pct :: real where
  "default_packet_loss_threshold_pct = 2"

definition default_cpu_threshold_pct :: real where
  "default_cpu_threshold_pct = 90"

subsection \<open>The statistics of the detector with rounding\<close>

text \<open>
  Lines 58 to 61 once more, every arithmetic result rounded by \<open>fl\<close>; with the identity
  for \<open>fl\<close> these are the functions above. pandas takes the standard deviation as the
  root of the mean of \<open>(avg - values) ** 2\<close>, with \<open>avg\<close> the sum over the count. The sum
  adds the values from the left, as numpy does for fewer than eight values; a longer sum
  is grouped in another way there.
\<close>

definition fsum :: "(real \<Rightarrow> real) \<Rightarrow> real list \<Rightarrow> real" where
  "fsum fl xs = foldl (\<lambda>s x. fl (s + x)) 0 xs"

definition series_mean_fl :: "(real \<Rightarrow> real) \<Rightarrow> real list \<Rightarrow> float64" where
  "series_mean_fl fl xs =
     (if xs = [] then NaN else Fin (fl (fsum fl xs / real (length xs))))"

definition series_std_fl :: "(real \<Rightarrow> real) \<Rightarrow> nat \<Rightarrow> real list \<Rightarrow> float64" where
  "series_std_fl fl ddof xs =
     (if length xs \<le> ddof then NaN
      else (let avg = fl (fsum fl xs / real (length xs));
                sqr = map (\<lambda>x. fl ((fl (avg - x))\<^sup>2)) xs
            in Fin (fl (sqrt (fl (fsum fl sqr / real (length xs - ddof)))))))"

definition float_round :: "(real \<Rightarrow> real) \<Rightarrow> float64 \<Rightarrow> float64" where
  "float_round fl z = (case z of Fin v \<Rightarrow> Fin (fl v) | _ \<Rightarrow> z)"

definition z_scores_fl :: "(real \<Rightarrow> real) \<Rightarrow> real list \<Rightarrow> float64 \<Rightarrow> float64 list" where
  "z_scores_fl fl xs sd =
     map (\<lambda>x. float_round fl
                (float_div (float_round fl (float_sub (Fin x) (series_mean_fl fl xs))) sd)) xs"

definition latency_std_fl :: "(real \<Rightarrow> real) \<Rightarrow> dataframe \<Rightarrow> float64" where
  "latency_std_fl fl df = float_or (series_std_fl fl 0 (map latency_ms (rows df))) 1"

definition loss_std_fl :: "(real \<Rightarrow> real) \<Rightarrow> dataframe \<Rightarrow> float64" where
  "loss_std_fl fl df = float_or (series_std_fl fl 0 (map packet_loss_pct (rows df))) 1"

definition z_latency_fl :: "(real \<Rightarrow> real) \<Rightarrow> dataframe \<Rightarrow> float64 list" where
  "z_latency_fl fl df = z_scores_fl fl (map latency_ms (rows df)) (latency_std_fl fl df)"

definition z_loss_fl :: "(real \<Rightarrow> real) \<Rightarrow> dataframe \<Rightarrow> float64 list" where
  "z_loss_fl fl df = z_scores_fl fl (map packet_loss_pct (rows df)) (loss_std_fl fl df)"

text \<open>
  The rounding of binary64 (IEEE 754 double precision): to the nearest number with 53
  significant bits, a tie to the one with an even last bit; below \<open>2 ^ - 1022\<close> the
  spacing stays that of the subnormal numbers. Overflow is not modelled.
\<close>

definition binary64 :: "real \<Rightarrow> real" where
  "binary64 x =
     (if x = 0 then 0
      else (let ulp = 2 powr (of_int (max \<lfloor>log 2 \<bar>x\<bar>\<rfloor> (- 1022)) - 52)
            in of_int (round_half_even (x / ulp)) * ulp))"

subsection \<open>\<open>summarize_reliability_metrics\<close>\<close>

text \<open>
  The function copies the frame it is given and assigns columns to the copy, so frames
  are objects here: a store holds the frames, an address is a position in it, and the
  address of a call is that of a frame of the store. A new frame goes to the end.
\<close>

type_synonym store = "dataframe list"

record reliability_summary =
  rs_region :: string
  uptime_score :: float64
  performance_score :: float64
  avg_cpu_utilization_pct :: float64

text \<open>\<open>df.copy()\<close>: the store with the copy, and the copy's address.\<close>

definition df_copy :: "store \<Rightarrow> nat \<Rightarrow> store \<times> nat" where
  "df_copy st a = (st @ [st ! a], length st)"

text \<open>\<open>df[name] = values\<close>: in place in the frame at the address; a column of that name is
  replaced where it stands, a new one goes last.\<close>

definition set_column :: "store \<Rightarrow> nat \<Rightarrow> string \<Rightarrow> real list \<Rightarrow> store" where
  "set_column st a name values =
     st[a := (st ! a)\<lparr>extra := AList.update name values (extra (st ! a))\<rparr>]"

definition clip_upper :: "real \<Rightarrow> real list \<Rightarrow> real list" where
  "clip_upper u xs = map (\<lambda>x. min x u) xs"

definition rsub :: "real \<Rightarrow> real list \<Rightarrow> real list" where
  "rsub c xs = map (\<lambda>x. c - x) xs"

definition div_scalar :: "real list \<Rightarrow> real \<Rightarrow> real list" where
  "div_scalar xs c = map (\<lambda>x. x / c) xs"

text \<open>The mean of a column over the rows of one group.\<close>

definition group_mean :: "'k list \<Rightarrow> real list \<Rightarrow> 'k \<Rightarrow> float64" where
  "group_mean keys values k = series_mean (map snd (group_rows fst (zip keys values) k))"

definition summarize_reliability_metrics ::
  "store \<Rightarrow> nat \<Rightarrow> py_error + (store \<times> reliability_summary list)"
where
  "summarize_reliability_metrics st caller_df =
     (let (st1, df) = df_copy st caller_df;
          st2 = set_column st1 df ''uptime_score''
                  (rsub 100 (clip_upper 5 (map packet_loss_pct (rows (st1 ! df)))));
          st3 = set_column st2 df ''performance_score''
                  (rsub 100 (div_scalar (clip_upper 200 (map latency_ms (rows (st2 ! df)))) 2));
          regions = map region (rows (st3 ! df))
      in case (map_of (extra (st3 ! df)) ''uptime_score'',
               map_of (extra (st3 ! df)) ''performance_score'') of
           (Some uptime, Some performance) \<Rightarrow>
             Inr (st3,
                  map (\<lambda>g. \<lparr>rs_region = g,
                             uptime_score = group_mean regions uptime g,
                             performance_score = group_mean regions performance g,
                             avg_cpu_utilization_pct =
                               group_mean regions (map cpu_utilization_pct (rows (st3 ! df))) g\<rparr>)
                    (group_keys id regions))
         | _ \<Rightarrow> Inl KeyError)"

subsection \<open>The specification's terms\<close>

text \<open>
  The three overshoot ratios of a record, the population mean, standard deviation and
  z-score of a value in a column, and the five conditions of the detector, as the
  specification words them, for comparison with the code above.
\<close>

definition latency_ratio :: "real \<Rightarrow> telemetry_record \<Rightarrow> real" where
  "latency_ratio lt r = (latency_ms r - lt) / lt"

definition loss_ratio :: "real \<Rightarrow> telemetry_record \<Rightarrow> real" where
  "loss_ratio pt r = (packet_loss_pct r - pt) / max pt (1 / 10 ^ 6)"

definition cpu_ratio :: "real \<Rightarrow> telemetry_record \<Rightarrow> real" where
  "cpu_ratio ct r = (cpu_utilization_pct r - ct) / ct"

definition ratio_max :: "real \<Rightarrow> real \<Rightarrow> real \<Rightarrow> telemetry_record \<Rightarrow> real" where
  "ratio_max lt pt ct r = max (max (latency_ratio lt r) (loss_ratio pt r)) (cpu_ratio ct r)"

definition pop_mean :: "real list \<Rightarrow> real" where
  "pop_mean xs = sum_list xs / real (length xs)"

definition pop_std :: "real list \<Rightarrow> real" where
  "pop_std xs = sqrt (sum_list (map (\<lambda>x. (x - pop_mean xs)\<^sup>2) xs) / real (length xs))"

definition pop_zscore :: "real list \<Rightarrow> real \<Rightarrow> real" where
  "pop_zscore xs x = (x - pop_mean xs) / (if pop_std xs = 0 then 1 else pop_std xs)"

definition exceeds_fixed :: "real \<Rightarrow> real \<Rightarrow> real \<Rightarrow> telemetry_record \<Rightarrow> bool" where
  "exceeds_fixed lt pt ct r \<longleftrightarrow>
     lt < latency_ms r \<or> pt < packet_loss_pct r \<or> ct < cpu_utilization_pct r"

definition five_conditions :: "dataframe \<Rightarrow> real \<Rightarrow> real \<Rightarrow> real \<Rightarrow> telemetry_record \<Rightarrow> bool" where
  "five_conditions df lt pt ct r \<longleftrightarrow>
     lt < latency_ms r \<or> pt < packet_loss_pct r \<or> ct < cpu_utilization_pct r \<or>
     5 / 2 < pop_zscore (map latency_ms (rows df)) (latency_ms r) \<or>
     5 / 2 < pop_zscore (map packet_loss_pct (rows df)) (packet_loss_pct r)"

subsection \<open>Sample data\<close>

definition sample_record :: "string \<Rightarrow> string \<Rightarrow> real \<Rightarrow> real \<Rightarrow> real \<Rightarrow> telemetry_record" where
  "sample_record dev reg lat loss cpu =
     \<lparr>timestamp = 0, device_id = dev, region = reg, traffic_mbps = 100,
      latency_ms = lat, packet_loss_pct = loss, cpu_utilization_pct = cpu\<rparr>"

definition frame_of :: "telemetry_record list \<Rightarrow> dataframe" where
  "frame_of rs = \<lparr>rows = rs, extra = []\<rparr>"

text \<open>
  Nine records with latency 10 and one with latency 20: the population mean is 11, the
  standard deviation 3, and the z-score of the last record 3, while no record exceeds a
  default threshold.
\<close>

definition nine_quiet_one_spike :: dataframe where
  "nine_quiet_one_spike =
     frame_of (replicate 9 (sample_record ''edge-01'' ''us-east'' 10 0 50) @
               [sample_record ''edge-02'' ''us-west'' 20 0 50])"

text \<open>Two records without packet loss in one region, one with packet loss 7 in another.\<close>

definition two_regions :: dataframe where
  "two_regions =
     frame_of [sample_record ''edge-01'' ''us-east'' 50 0 70,
               sample_record ''edge-02'' ''us-west'' 60 7 80,
               sample_record ''edge-03'' ''us-east'' 70 0 90]"

text \<open>The table of the repository's tests (\<open>tests/test_pipeline.py\<close>), one record a minute.\<close>

definition sample_df :: dataframe where
  "sample_df = frame_of
     [\<lparr>timestamp = 0, device_id = ''edge-01'', region = ''us-east'', traffic_mbps = 100,
       latency_ms = 50, packet_loss_pct = 1 / 2, cpu_utilization_pct = 70\<rparr>,
      \<lparr>timestamp = 1, device_id = ''edge-01'', region = ''us-east'', traffic_mbps = 120,
       latency_ms = 55, packet_loss_pct = 2 / 5, cpu_utilization_pct = 72\<rparr>,
      \<lparr>timestamp = 2, device_id = ''edge-02'', region = ''us-east'', traffic_mbps = 80,
       latency_ms = 60, packet_loss_pct = 3 / 5, cpu_utilization_pct = 65\<rparr>,
      \<lparr>timestamp = 3, device_id = ''edge-02'', region = ''us-west'', traffic_mbps = 90,
       latency_ms = 200, packet_loss_pct = 5, cpu_utilization_pct = 95\<rparr>,
      \<lparr>timestamp = 4, device_id = ''edge-03'', region = ''us-west'', traffic_mbps = 110,
       latency_ms = 45, packet_loss_pct = 3 / 10, cpu_utilization_pct = 60\<rparr>,
      \<lparr>timestamp = 5, device_id = ''edge-03'', region = ''us-west'', traffic_mbps = 95,
       latency_ms = 50, packet_loss_pct = 1 / 5, cpu_utilization_pct = 58\<rparr>]"

text \<open>The binary64 number nearest to 0.1, and a table of three records with this latency.\<close>

definition tenth :: real where
  "tenth = 3602879701896397 / 2 ^ 55"

definition three_tenths :: dataframe where
  "three_tenths =
     frame_of [sample_record ''edge-01'' ''us-east'' tenth 0 50,
               sample_record ''edge-02'' ''us-east'' tenth 0 50,
               sample_record ''edge-03'' ''us-east'' tenth 0 50]"

text \<open>Two records with the latency 50.\<close>

definition fifty_twice :: dataframe where
  "fifty_twice =
     frame_of [sample_record ''edge-01'' ''us-east'' 50 1 70,
               sample_record ''edge-02'' ''us-east'' 50 1 70]"

section \<open>Properties\<close>

subsection \<open>Grouping\<close>

lemma set_group_keys: "set (group_keys key rs) = key ` set rs"
  by (simp add: group_keys_def)

lemma distinct_group_keys: "distinct (group_keys key rs)"
  by (simp add: group_keys_def)

lemma length_group_keys: "length (group_keys key rs) = card (key ` set rs)"
  by (simp add: group_keys_def length_remdups_card_conv)

lemma latency_agg_key: "(ls_region (latency_agg k xs), ls_device_id (latency_agg k xs)) = k"
  by (simp add: latency_agg_def)

lemma stats_keys:
  "map (\<lambda>s. (ls_region s, ls_device_id s)) (compute_latency_stats df) =
   group_keys region_device (rows df)"
  by (simp add: compute_latency_stats_def o_def latency_agg_key)

text \<open>
  C6. The result of \<open>compute_latency_stats\<close> has as many rows as there are distinct
  (region, device\_id) pairs among the rows of the input, and exactly one row for each
  such pair: the pairs of its rows are distinct, and they are the pairs of the input.
\<close>

theorem latency_stats_one_row_per_pair:
  "length (compute_latency_stats df) = card ((\<lambda>r. (region r, device_id r)) ` set (rows df)) \<and>
   distinct (map (\<lambda>s. (ls_region s, ls_device_id s)) (compute_latency_stats df)) \<and>
   set (map (\<lambda>s. (ls_region s, ls_device_id s)) (compute_latency_stats df)) =
     (\<lambda>r. (region r, device_id r)) ` set (rows df)"
proof -
  have key: "region_device = (\<lambda>r. (region r, device_id r))"
    by (rule ext) (simp add: region_device_def)
  have "length (compute_latency_stats df) = length (group_keys region_device (rows df))"
    by (simp add: compute_latency_stats_def)
  then show ?thesis
    unfolding key[symmetric]
    by (simp only: stats_keys length_group_keys distinct_group_keys set_group_keys)
qed

text \<open>
  The table of the tests has six rows and four distinct pairs, and four rows of
  statistics, one for each pair, in ascending order of the pair.
\<close>

theorem latency_stats_one_row_per_pair_witness:
  "card ((\<lambda>r. (region r, device_id r)) ` set (rows sample_df)) = 4 \<and>
   length (compute_latency_stats sample_df) = 4 \<and>
   map (\<lambda>s. (ls_region s, ls_device_id s)) (compute_latency_stats sample_df) =
     [(''us-east'', ''edge-01''), (''us-east'', ''edge-02''),
      (''us-west'', ''edge-02''), (''us-west'', ''edge-03'')] \<and>
   map samples (compute_latency_stats sample_df) = [2, 1, 1, 2]"
proof -
  have pairs: "card ((\<lambda>r. (region r, device_id r)) ` set (rows sample_df)) = 4"
    by (simp add: sample_df_def frame_of_def)
  have len: "length (compute_latency_stats sample_df) = 4"
    using latency_stats_one_row_per_pair [of sample_df] unfolding pairs
    by (rule conjunct1)
  have keys: "map (\<lambda>s. (ls_region s, ls_device_id s)) (compute_latency_stats sample_df) =
     [(''us-east'', ''edge-01''), (''us-east'', ''edge-02''),
      (''us-west'', ''edge-02''), (''us-west'', ''edge-03'')]"
    unfolding stats_keys
    by (simp add: group_keys_def region_device_def sample_df_def frame_of_def)
  have cnt: "map samples (compute_latency_stats sample_df) = [2, 1, 1, 2]"
    by (simp add: compute_latency_stats_def group_keys_def group_rows_def region_device_def
        latency_agg_def sample_df_def frame_of_def)
  show ?thesis
    by (intro conjI pairs len keys cnt)
qed

text \<open>
  C1, as the code has it. The aggregation \<open>"std"\<close> is the sample standard deviation
  (\<open>ddof = 1\<close>), which is not defined for one sample: a (region, device\_id) partition
  with exactly one row has a row in the result, and that row reports \<open>samples = 1\<close> and
  \<open>latency_std_ms = NaN\<close>, not 0.
\<close>

theorem single_sample_std_is_nan:
  assumes "length (group_rows region_device (rows df) (g, d)) = 1"
  shows "(\<exists>s \<in> set (compute_latency_stats df). ls_region s = g \<and> ls_device_id s = d) \<and>
         (\<forall>s \<in> set (compute_latency_stats df). ls_region s = g \<and> ls_device_id s = d \<longrightarrow>
            samples s = 1 \<and> latency_std_ms s = NaN)"
proof
  from assms have "group_rows region_device (rows df) (g, d) \<noteq> []"
    by auto
  then obtain r where "r \<in> set (rows df)" "region_device r = (g, d)"
    by (auto simp: group_rows_def filter_empty_conv)
  then have "(g, d) \<in> set (group_keys region_device (rows df))"
    unfolding set_group_keys by (metis imageI)
  then have "latency_agg (g, d) (map latency_ms (group_rows region_device (rows df) (g, d)))
      \<in> set (compute_latency_stats df)"
    by (auto simp: compute_latency_stats_def)
  then show "\<exists>s \<in> set (compute_latency_stats df). ls_region s = g \<and> ls_device_id s = d"
    by (rule bexI[rotated]) (simp add: latency_agg_def)
next
  show "\<forall>s \<in> set (compute_latency_stats df). ls_region s = g \<and> ls_device_id s = d \<longrightarrow>
          samples s = 1 \<and> latency_std_ms s = NaN"
  proof (intro ballI impI)
    fix s
    assume "s \<in> set (compute_latency_stats df)" and key: "ls_region s = g \<and> ls_device_id s = d"
    then obtain k where s: "s = latency_agg k (map latency_ms (group_rows region_device (rows df) k))"
      by (auto simp: compute_latency_stats_def)
    with key have "k = (g, d)"
      by (simp add: latency_agg_def prod_eq_iff)
    with s assms show "samples s = 1 \<and> latency_std_ms s = NaN"
      by (simp add: latency_agg_def series_std_def)
  qed
qed

theorem single_sample_std_is_nan_witness:
  "length (group_rows region_device
     (rows (frame_of [sample_record ''edge-01'' ''us-east'' 50 0 70])) (''us-east'', ''edge-01'')) = 1 \<and>
   (\<exists>s \<in> set (compute_latency_stats (frame_of [sample_record ''edge-01'' ''us-east'' 50 0 70])).
      ls_region s = ''us-east'' \<and> ls_device_id s = ''edge-01'' \<and>
      samples s = 1 \<and> latency_std_ms s = NaN)"
proof -
  have h: "length (group_rows region_device
     (rows (frame_of [sample_record ''edge-01'' ''us-east'' 50 0 70])) (''us-east'', ''edge-01'')) = 1"
    by (simp add: group_rows_def region_device_def frame_of_def sample_record_def)
  from single_sample_std_is_nan[OF h] h show ?thesis
    by blast
qed

text \<open>
  C1, as the specification has it, fails: the table of one row has one partition of one
  sample, and its \<open>latency_std_ms\<close> is \<open>NaN\<close>, which is not 0.
\<close>

theorem single_sample_std_zero_counterexample:
  "compute_latency_stats (frame_of [sample_record ''edge-01'' ''us-east'' 50 0 70]) =
     [\<lparr>ls_region = ''us-east'', ls_device_id = ''edge-01'',
       mean_latency_ms = Fin 50, median_latency_ms = Fin 50, max_latency_ms = Fin 50,
       latency_std_ms = NaN, samples = 1\<rparr>] \<and>
   NaN \<noteq> Fin 0"
  by (simp add: compute_latency_stats_def group_keys_def group_rows_def region_device_def
      latency_agg_def series_mean_def series_median_def series_std_def
      frame_of_def sample_record_def)


subsection \<open>The anomaly mask\<close>

lemma mask_or_map: "mask_or (map f rs) (map g rs) = map (\<lambda>r. f r \<or> g r) rs"
  by (induction rs) (simp_all add: mask_or_def)

lemma loc_mask_map: "loc_mask rs (map P rs) = filter P rs"
  by (induction rs) (simp_all add: loc_mask_def)

lemma loc_mask_Cons: "loc_mask (r # rs) (b # m) = (if b then [r] else []) @ loc_mask rs m"
  by (simp add: loc_mask_def)

lemma loc_mask_nths:
  "length m = length rs \<Longrightarrow> loc_mask rs m = nths rs {i. i < length rs \<and> m ! i}"
proof (induction rs arbitrary: m)
  case Nil
  then show ?case by (simp add: loc_mask_def)
next
  case (Cons r rs)
  then obtain b m' where m: "m = b # m'" and len: "length m' = length rs"
    by (cases m) auto
  have "{j. Suc j \<in> {i. i < length (r # rs) \<and> m ! i}} = {i. i < length rs \<and> m' ! i}"
    by (auto simp: m)
  moreover have "0 \<in> {i. i < length (r # rs) \<and> m ! i} \<longleftrightarrow> b"
    by (simp add: m)
  ultimately show ?case
    using Cons.IH[OF len] by (simp add: m loc_mask_Cons nths_Cons)
qed

lemma series_mean_pop: "xs \<noteq> [] \<Longrightarrow> series_mean xs = Fin (pop_mean xs)"
  by (simp add: series_mean_def pop_mean_def)

lemma series_std_pop: "xs \<noteq> [] \<Longrightarrow> series_std 0 xs = Fin (pop_std xs)"
  by (simp add: series_std_def pop_std_def pop_mean_def)

lemma float_or_nonzero: "float_or x 1 \<noteq> Fin 0"
  by (simp add: float_or_def)

lemma z_score_pop:
  assumes "xs \<noteq> []"
  shows "float_div (float_sub (Fin x) (series_mean xs)) (float_or (series_std 0 xs) 1) =
         Fin (pop_zscore xs x)"
  using assms by (simp add: series_mean_pop series_std_pop float_or_def pop_zscore_def)

lemma z_scores_pop: "z_scores xs (float_or (series_std 0 xs) 1) = map (\<lambda>x. Fin (pop_zscore xs x)) xs"
proof (cases "xs = []")
  case True
  then show ?thesis by (simp add: z_scores_def)
next
  case False
  then show ?thesis by (simp add: z_scores_def z_score_pop)
qed

lemma anomaly_mask_rows:
  "anomaly_mask df lt pt ct = map (five_conditions df lt pt ct) (rows df)"
  by (simp add: anomaly_mask_def series_gt_def floats_gt_def z_latency_def z_loss_def
      latency_std_def loss_std_def z_scores_pop o_def mask_or_map five_conditions_def)

lemma length_anomaly_mask: "length (anomaly_mask df lt pt ct) = length (rows df)"
  by (simp add: anomaly_mask_rows)

subsection \<open>The loop over the selected records\<close>

lemma overshoot_ok:
  "lt \<noteq> 0 \<Longrightarrow> ct \<noteq> 0 \<Longrightarrow> overshoot lt pt ct r = Inr (ratio_max lt pt ct r)"
  by (simp add: overshoot_def truediv_def ratio_max_def latency_ratio_def loss_ratio_def
      cpu_ratio_def)

lemma overshoot_err: "lt = 0 \<or> ct = 0 \<Longrightarrow> overshoot lt pt ct r = Inl ZeroDivisionError"
  by (auto simp add: overshoot_def truediv_def)

lemma detect_loop_ok:
  "lt \<noteq> 0 \<Longrightarrow> ct \<noteq> 0 \<Longrightarrow>
   detect_loop lt pt ct rs acc =
     Inr (acc @ map (\<lambda>r. make_bottleneck r (ratio_max lt pt ct r)) rs)"
  by (induction rs arbitrary: acc) (simp_all add: overshoot_ok)

lemma detect_loop_err:
  "lt = 0 \<or> ct = 0 \<Longrightarrow> rs \<noteq> [] \<Longrightarrow> detect_loop lt pt ct rs acc = Inl ZeroDivisionError"
  by (cases rs) (simp_all add: overshoot_err)

lemma detect_ok:
  assumes "lt \<noteq> 0" "ct \<noteq> 0"
  shows "detect_performance_bottlenecks df lt pt ct =
           Inr (map (\<lambda>r. make_bottleneck r (ratio_max lt pt ct r))
                  (loc_mask (rows df) (anomaly_mask df lt pt ct)))"
  using assms by (simp add: detect_performance_bottlenecks_def detect_loop_ok)

lemma detect_returns_nonzero:
  assumes "detect_performance_bottlenecks df lt pt ct = Inr bs" "bs \<noteq> []"
  shows "lt \<noteq> 0 \<and> ct \<noteq> 0"
proof (rule ccontr)
  assume "\<not> (lt \<noteq> 0 \<and> ct \<noteq> 0)"
  then have z: "lt = 0 \<or> ct = 0" by simp
  show False
  proof (cases "loc_mask (rows df) (anomaly_mask df lt pt ct) = []")
    case True
    with assms show False by (simp add: detect_performance_bottlenecks_def)
  next
    case False
    with assms(1) detect_loop_err[OF z False] show False
      by (simp add: detect_performance_bottlenecks_def)
  qed
qed

subsection \<open>Rounding to two decimals\<close>

lemma round_half_even_zero: "round_half_even y = 0 \<longleftrightarrow> - (1 / 2) \<le> y \<and> y \<le> 1 / 2"
proof -
  define f where "f = \<lfloor>y\<rfloor>"
  have lo: "of_int f \<le> y" and hi: "y < of_int f + 1"
    unfolding f_def by linarith+
  have r: "round_half_even y =
      (if y - of_int f < 1 / 2 then f else if 1 / 2 < y - of_int f then f + 1
       else if even f then f else f + 1)"
    by (simp add: round_half_even_def f_def)
  consider "f \<le> - 2" | "f = - 1" | "f = 0" | "1 \<le> f" by linarith
  then show ?thesis
  proof cases
    case 1
    then have "of_int f \<le> (- 2 :: real)" by linarith
    with hi have "y < - 1" by linarith
    moreover from 1 have "round_half_even y \<noteq> 0" unfolding r by auto
    ultimately show ?thesis by simp
  next
    case 2
    then show ?thesis using lo hi unfolding r by auto
  next
    case 3
    then show ?thesis using lo hi unfolding r by auto
  next
    case 4
    then have "(1 :: real) \<le> of_int f" by linarith
    with lo have "1 \<le> y" by linarith
    moreover from 4 have "round_half_even y \<noteq> 0" unfolding r by auto
    ultimately show ?thesis by simp
  qed
qed

lemma round_half_even_nonneg: "0 \<le> y \<Longrightarrow> 0 \<le> round_half_even y"
  unfolding round_half_even_def Let_def by auto

lemma round2_zero: "round2 x = 0 \<longleftrightarrow> - (1 / 200) \<le> x \<and> x \<le> 1 / 200"
  by (auto simp: round2_def round_half_even_zero)

lemma round2_nonneg: "0 \<le> x \<Longrightarrow> 0 \<le> round2 x"
  by (simp add: round2_def round_half_even_nonneg)

lemma severity_make: "severity (make_bottleneck r s) = round2 (max s 0)"
  by (simp add: make_bottleneck_def)

lemma severity_facts:
  "0 \<le> severity (make_bottleneck r (ratio_max lt pt ct r))"
  "latency_ratio lt r \<le> 0 \<and> loss_ratio pt r \<le> 0 \<and> cpu_ratio ct r \<le> 0 \<Longrightarrow>
     severity (make_bottleneck r (ratio_max lt pt ct r)) = 0"
  "severity (make_bottleneck r (ratio_max lt pt ct r)) = 0 \<Longrightarrow>
     latency_ratio lt r \<le> 1 / 200 \<and> loss_ratio pt r \<le> 1 / 200 \<and> cpu_ratio ct r \<le> 1 / 200"
  "latency_ratio lt r < 1 / 200 \<and> loss_ratio pt r < 1 / 200 \<and> cpu_ratio ct r < 1 / 200 \<Longrightarrow>
     severity (make_bottleneck r (ratio_max lt pt ct r)) = 0"
  by (auto simp: severity_make round2_nonneg round2_zero ratio_max_def)

lemma sqrt_9: "sqrt 9 = 3"
  by (rule real_sqrt_unique) simp_all

lemmas detect_eval =
  detect_performance_bottlenecks_def anomaly_mask_def mask_or_def series_gt_def floats_gt_def
  z_latency_def z_loss_def z_scores_def latency_std_def loss_std_def float_or_def
  series_std_def series_mean_def loc_mask_def frame_of_def sample_record_def overshoot_def
  truediv_def make_bottleneck_def round2_def round_half_even_def


lemma detect_Inr:
  assumes "detect_performance_bottlenecks df lt pt ct = Inr bs"
  shows "bs = map (\<lambda>r. make_bottleneck r (ratio_max lt pt ct r))
                (loc_mask (rows df) (anomaly_mask df lt pt ct))"
proof (cases "lt \<noteq> 0 \<and> ct \<noteq> 0")
  case True
  with assms show ?thesis by (simp add: detect_ok)
next
  case False
  then have z: "lt = 0 \<or> ct = 0" by simp
  have "loc_mask (rows df) (anomaly_mask df lt pt ct) = []"
  proof (rule ccontr)
    assume "loc_mask (rows df) (anomaly_mask df lt pt ct) \<noteq> []"
    from detect_loop_err[OF z this] assms show False
      by (simp add: detect_performance_bottlenecks_def)
  qed
  with assms show ?thesis by (simp add: detect_performance_bottlenecks_def)
qed

subsection \<open>Severity\<close>

text \<open>
  C2, as the code has it. A call with non-zero latency and CPU thresholds returns. In
  every call that returns there is one severity for each selected record, in order, and
  that severity is at least 0; it is 0 when all three overshoot ratios are at most 0;
  and when it is 0, each of the three ratios is at most 0.005, for the maximum of the
  ratios is rounded to two decimals: ratios below 0.005 give severity 0 as well.
\<close>

theorem severity_nonneg_and_zero_when_rounded_to_zero:
  "(lt \<noteq> 0 \<and> ct \<noteq> 0 \<longrightarrow> (\<exists>bs. detect_performance_bottlenecks df lt pt ct = Inr bs)) \<and>
   (\<forall>bs. detect_performance_bottlenecks df lt pt ct = Inr bs \<longrightarrow>
      length bs = length (loc_mask (rows df) (anomaly_mask df lt pt ct)) \<and>
      (\<forall>i < length bs.
         0 \<le> severity (bs ! i) \<and>
         (latency_ratio lt (loc_mask (rows df) (anomaly_mask df lt pt ct) ! i) \<le> 0 \<and>
          loss_ratio pt (loc_mask (rows df) (anomaly_mask df lt pt ct) ! i) \<le> 0 \<and>
          cpu_ratio ct (loc_mask (rows df) (anomaly_mask df lt pt ct) ! i) \<le> 0 \<longrightarrow>
            severity (bs ! i) = 0) \<and>
         (severity (bs ! i) = 0 \<longrightarrow>
            latency_ratio lt (loc_mask (rows df) (anomaly_mask df lt pt ct) ! i) \<le> 1 / 200 \<and>
            loss_ratio pt (loc_mask (rows df) (anomaly_mask df lt pt ct) ! i) \<le> 1 / 200 \<and>
            cpu_ratio ct (loc_mask (rows df) (anomaly_mask df lt pt ct) ! i) \<le> 1 / 200) \<and>
         (latency_ratio lt (loc_mask (rows df) (anomaly_mask df lt pt ct) ! i) < 1 / 200 \<and>
          loss_ratio pt (loc_mask (rows df) (anomaly_mask df lt pt ct) ! i) < 1 / 200 \<and>
          cpu_ratio ct (loc_mask (rows df) (anomaly_mask df lt pt ct) ! i) < 1 / 200 \<longrightarrow>
            severity (bs ! i) = 0)))"
proof (intro conjI allI impI)
  assume "lt \<noteq> 0 \<and> ct \<noteq> 0"
  then show "\<exists>bs. detect_performance_bottlenecks df lt pt ct = Inr bs"
    by (simp add: detect_ok)
next
  fix bs
  assume "detect_performance_bottlenecks df lt pt ct = Inr bs"
  from detect_Inr[OF this]
  show "length bs = length (loc_mask (rows df) (anomaly_mask df lt pt ct))"
    by simp
next
  fix bs i
  let ?sel = "loc_mask (rows df) (anomaly_mask df lt pt ct)"
  assume "detect_performance_bottlenecks df lt pt ct = Inr bs" and i: "i < length bs"
  from detect_Inr[OF this(1)]
  have bs: "bs = map (\<lambda>r. make_bottleneck r (ratio_max lt pt ct r)) ?sel" .
  with i have nth: "bs ! i = make_bottleneck (?sel ! i) (ratio_max lt pt ct (?sel ! i))"
    by simp
  show "0 \<le> severity (bs ! i)"
    unfolding nth by (rule severity_facts(1))
  {
    assume "latency_ratio lt (?sel ! i) \<le> 0 \<and> loss_ratio pt (?sel ! i) \<le> 0 \<and>
            cpu_ratio ct (?sel ! i) \<le> 0"
    then show "severity (bs ! i) = 0"
      unfolding nth by (rule severity_facts(2))
  }
  {
    assume "latency_ratio lt (?sel ! i) < 1 / 200 \<and> loss_ratio pt (?sel ! i) < 1 / 200 \<and>
            cpu_ratio ct (?sel ! i) < 1 / 200"
    then show "severity (bs ! i) = 0"
      unfolding nth by (rule severity_facts(4))
  }
  assume "severity (bs ! i) = 0"
  then have "latency_ratio lt (?sel ! i) \<le> 1 / 200 \<and> loss_ratio pt (?sel ! i) \<le> 1 / 200 \<and>
        cpu_ratio ct (?sel ! i) \<le> 1 / 200"
    unfolding nth by (rule severity_facts(3))
  then show "latency_ratio lt (?sel ! i) \<le> 1 / 200"
    and "loss_ratio pt (?sel ! i) \<le> 1 / 200"
    and "cpu_ratio ct (?sel ! i) \<le> 1 / 200"
    by simp_all
qed

lemma nine_quiet_one_spike_selected:
  "loc_mask (rows nine_quiet_one_spike) (anomaly_mask nine_quiet_one_spike 120 2 90) =
     [sample_record ''edge-02'' ''us-west'' 20 0 50]"
  by (simp add: nine_quiet_one_spike_def detect_eval numeral_nat sqrt_9)

text \<open>
  The record of \<open>nine_quiet_one_spike\<close> with latency 20 is selected by its z-score alone;
  its three ratios are negative and its severity is 0.
\<close>

theorem severity_nonneg_and_zero_when_rounded_to_zero_witness:
  "(120 :: real) \<noteq> 0 \<and> (90 :: real) \<noteq> 0 \<and>
   (\<exists>bs. detect_performance_bottlenecks nine_quiet_one_spike 120 2 90 = Inr bs \<and>
      length bs = 1 \<and> severity (bs ! 0) = 0) \<and>
   latency_ratio 120 (sample_record ''edge-02'' ''us-west'' 20 0 50) \<le> 0 \<and>
   loss_ratio 2 (sample_record ''edge-02'' ''us-west'' 20 0 50) \<le> 0 \<and>
   cpu_ratio 90 (sample_record ''edge-02'' ''us-west'' 20 0 50) \<le> 0"
proof -
  note inst = severity_nonneg_and_zero_when_rounded_to_zero
    [of 120 90 nine_quiet_one_spike 2, unfolded nine_quiet_one_spike_selected]
  have ratios:
    "latency_ratio 120 (sample_record ''edge-02'' ''us-west'' 20 0 50) \<le> 0 \<and>
     loss_ratio 2 (sample_record ''edge-02'' ''us-west'' 20 0 50) \<le> 0 \<and>
     cpu_ratio 90 (sample_record ''edge-02'' ''us-west'' 20 0 50) \<le> 0"
    by (simp add: latency_ratio_def loss_ratio_def cpu_ratio_def sample_record_def)
  from inst obtain bs where
    bs: "detect_performance_bottlenecks nine_quiet_one_spike 120 2 90 = Inr bs"
    by auto
  with inst have len: "length bs = 1"
    by simp
  from inst bs len ratios have "severity (bs ! 0) = 0"
    by simp
  with bs len ratios show ?thesis
    by auto
qed

text \<open>
  C2, as the specification has it, fails: a record with latency 120.4 exceeds the
  default latency threshold by the ratio 1/300, which is positive, and its severity is
  reported as 0.
\<close>

theorem severity_zero_iff_counterexample:
  "detect_performance_bottlenecks
     (frame_of [sample_record ''edge-01'' ''us-east'' (602 / 5) 0 50]) 120 2 90 =
     Inr [\<lparr>bn_device_id = ''edge-01'', bn_region = ''us-east'',
           metric = ''latency/packet_loss/cpu'', severity = 0,
           description =
             [Lit ''High latency and loss event observed'',
              Lit '' at '', Stamp 0, Lit '' (latency '',
              Number (602 / 5), Lit '' ms,'',
              Lit '' loss '', Number 0, Lit ''%).'']\<rparr>] \<and>
   0 < latency_ratio 120 (sample_record ''edge-01'' ''us-east'' (602 / 5) 0 50)"
  by (simp add: detect_eval latency_ratio_def)


subsection \<open>A threshold of 0\<close>

lemma zero_threshold_raises:
  assumes "lt = 0 \<or> ct = 0" and "True \<in> set (anomaly_mask df lt pt ct)"
  shows "detect_performance_bottlenecks df lt pt ct = Inl ZeroDivisionError"
proof -
  from assms(2) have "filter (five_conditions df lt pt ct) (rows df) \<noteq> []"
    by (auto simp: anomaly_mask_rows filter_empty_conv)
  then have "loc_mask (rows df) (anomaly_mask df lt pt ct) \<noteq> []"
    by (simp add: anomaly_mask_rows loc_mask_map)
  with assms(1) show ?thesis
    by (simp add: detect_performance_bottlenecks_def detect_loop_err)
qed

text \<open>
  For thresholds other than 0 the call returns, and its list is the image of the rows at
  the flagged positions, in row order, with the device and the region of each record and
  the one metric label.
\<close>

lemma bottlenecks_in_row_order:
  assumes "lt \<noteq> 0" and "ct \<noteq> 0"
  shows "detect_performance_bottlenecks df lt pt ct =
           Inr (map (\<lambda>r. make_bottleneck r (ratio_max lt pt ct r))
                  (nths (rows df) {i. i < length (rows df) \<and> anomaly_mask df lt pt ct ! i})) \<and>
         length (projr (detect_performance_bottlenecks df lt pt ct)) =
           card {i. i < length (rows df) \<and> anomaly_mask df lt pt ct ! i} \<and>
         map bn_device_id (projr (detect_performance_bottlenecks df lt pt ct)) =
           map device_id
             (nths (rows df) {i. i < length (rows df) \<and> anomaly_mask df lt pt ct ! i}) \<and>
         map bn_region (projr (detect_performance_bottlenecks df lt pt ct)) =
           map region
             (nths (rows df) {i. i < length (rows df) \<and> anomaly_mask df lt pt ct ! i}) \<and>
         map metric (projr (detect_performance_bottlenecks df lt pt ct)) =
           replicate (card {i. i < length (rows df) \<and> anomaly_mask df lt pt ct ! i})
             ''latency/packet_loss/cpu''"
proof -
  let ?I = "{i. i < length (rows df) \<and> anomaly_mask df lt pt ct ! i}"
  let ?bs = "map (\<lambda>r. make_bottleneck r (ratio_max lt pt ct r)) (nths (rows df) ?I)"
  have sel: "loc_mask (rows df) (anomaly_mask df lt pt ct) = nths (rows df) ?I"
    by (rule loc_mask_nths) (rule length_anomaly_mask)
  with assms have ret: "detect_performance_bottlenecks df lt pt ct = Inr ?bs"
    by (simp add: detect_ok)
  have "{i. i < length (rows df) \<and> i \<in> ?I} = ?I"
    by auto
  then have len: "length (nths (rows df) ?I) = card ?I"
    by (simp add: length_nths)
  have dev: "map bn_device_id ?bs = map device_id (nths (rows df) ?I)"
    and reg: "map bn_region ?bs = map region (nths (rows df) ?I)"
    by (simp_all add: make_bottleneck_def o_def)
  have met: "map metric ?bs = replicate (card ?I) ''latency/packet_loss/cpu''"
    unfolding len[symmetric] by (simp add: make_bottleneck_def o_def map_replicate_const)
  have "length ?bs = card ?I"
    using len by simp
  with ret dev reg met show ?thesis
    unfolding ret sum.sel by (intro conjI)
qed

text \<open>
  C3. The claim is that a Bottleneck is produced for a record exactly when it meets one
  of the five conditions. With the latency threshold 0 and the other thresholds at their
  defaults, the record of this table has a latency above the threshold, so it meets the
  first condition and the mask flags it; the call produces no Bottleneck for it but
  raises \<open>ZeroDivisionError\<close>, from the division by the latency threshold in the severity.
  The packet-loss ratio beside it is guarded by \<open>max(threshold, 1e-6)\<close>.
\<close>

theorem zero_latency_threshold_raises:
  "five_conditions (frame_of [sample_record ''edge-01'' ''us-east'' 50 0 50])
     0 default_packet_loss_threshold_pct default_cpu_threshold_pct
     (sample_record ''edge-01'' ''us-east'' 50 0 50) \<and>
   anomaly_mask (frame_of [sample_record ''edge-01'' ''us-east'' 50 0 50])
     0 default_packet_loss_threshold_pct default_cpu_threshold_pct = [True] \<and>
   detect_performance_bottlenecks (frame_of [sample_record ''edge-01'' ''us-east'' 50 0 50])
     0 default_packet_loss_threshold_pct default_cpu_threshold_pct = Inl ZeroDivisionError"
  by (simp add: detect_eval five_conditions_def default_packet_loss_threshold_pct_def
      default_cpu_threshold_pct_def)

text \<open>
  C8. The claim is that the call returns one Bottleneck for each flagged record, in row
  order. With the CPU threshold 0 and the other thresholds at their defaults, the second
  record of this table is flagged, the first is not, and the call returns no list: it
  raises \<open>ZeroDivisionError\<close>, from the division by the CPU threshold in the severity.
\<close>

theorem zero_cpu_threshold_raises:
  "anomaly_mask (frame_of [sample_record ''edge-07'' ''eu-west'' 50 0 0,
                            sample_record ''edge-08'' ''eu-west'' 50 0 50])
     default_latency_threshold_ms default_packet_loss_threshold_pct 0 = [False, True] \<and>
   detect_performance_bottlenecks
     (frame_of [sample_record ''edge-07'' ''eu-west'' 50 0 0,
                sample_record ''edge-08'' ''eu-west'' 50 0 50])
     default_latency_threshold_ms default_packet_loss_threshold_pct 0 = Inl ZeroDivisionError"
  by (simp add: detect_eval default_latency_threshold_ms_def
      default_packet_loss_threshold_pct_def)

subsection \<open>The divisor of the z-scores\<close>

lemma foldl_plus: "foldl (\<lambda>s x. s + x) a xs = a + sum_list xs"
  for a :: real
  by (induction xs arbitrary: a) simp_all

lemma fsum_exact: "fsum (\<lambda>x. x) xs = sum_list xs"
  by (simp add: fsum_def foldl_plus)

lemma series_mean_exact: "series_mean_fl (\<lambda>x. x) xs = series_mean xs"
  by (simp add: series_mean_fl_def series_mean_def fsum_exact)

lemma series_std_exact: "series_std_fl (\<lambda>x. x) ddof xs = series_std ddof xs"
  by (simp add: series_std_fl_def series_std_def fsum_exact Let_def power2_commute)

lemma float_round_exact: "float_round (\<lambda>x. x) z = z"
  by (cases z) (simp_all add: float_round_def)

lemma z_scores_exact: "z_scores_fl (\<lambda>x. x) xs sd = z_scores xs sd"
  by (simp add: z_scores_fl_def z_scores_def float_round_exact series_mean_exact)

lemma exact_instances:
  "latency_std_fl (\<lambda>x. x) df = latency_std df"
  "loss_std_fl (\<lambda>x. x) df = loss_std df"
  "z_latency_fl (\<lambda>x. x) df = z_latency df"
  "z_loss_fl (\<lambda>x. x) df = z_loss df"
  by (simp_all add: latency_std_fl_def loss_std_fl_def z_latency_fl_def z_loss_fl_def
      latency_std_def loss_std_def z_latency_def z_loss_def series_std_exact z_scores_exact)

text \<open>
  C4, as the code has it. Whatever the rounding, the divisors of the two z-score
  computations are never 0: where the standard deviation that \<open>std(ddof=0)\<close> computes
  for the column over the whole table is 0, the divisor is 1, and else it is the computed
  standard deviation itself. Every z-score is the quotient by this divisor. In exact
  arithmetic these are the divisors and the z-scores of the detector above. The last
  part is the same for any value \<open>s\<close> that the standard deviation may be computed as.
\<close>

theorem computed_zero_std_is_replaced_by_one:
  "latency_std_fl fl df \<noteq> Fin 0 \<and> loss_std_fl fl df \<noteq> Fin 0 \<and>
   (series_std_fl fl 0 (map latency_ms (rows df)) = Fin 0 \<longrightarrow> latency_std_fl fl df = Fin 1) \<and>
   (series_std_fl fl 0 (map packet_loss_pct (rows df)) = Fin 0 \<longrightarrow> loss_std_fl fl df = Fin 1) \<and>
   (series_std_fl fl 0 (map latency_ms (rows df)) \<noteq> Fin 0 \<longrightarrow>
      latency_std_fl fl df = series_std_fl fl 0 (map latency_ms (rows df))) \<and>
   (series_std_fl fl 0 (map packet_loss_pct (rows df)) \<noteq> Fin 0 \<longrightarrow>
      loss_std_fl fl df = series_std_fl fl 0 (map packet_loss_pct (rows df))) \<and>
   z_latency_fl fl df =
     map (\<lambda>x. float_round fl
                (float_div
                   (float_round fl (float_sub (Fin x) (series_mean_fl fl (map latency_ms (rows df)))))
                   (latency_std_fl fl df)))
       (map latency_ms (rows df)) \<and>
   z_loss_fl fl df =
     map (\<lambda>x. float_round fl
                (float_div
                   (float_round fl
                      (float_sub (Fin x) (series_mean_fl fl (map packet_loss_pct (rows df)))))
                   (loss_std_fl fl df)))
       (map packet_loss_pct (rows df)) \<and>
   latency_std df = latency_std_fl (\<lambda>x. x) df \<and> loss_std df = loss_std_fl (\<lambda>x. x) df \<and>
   z_latency df = z_latency_fl (\<lambda>x. x) df \<and> z_loss df = z_loss_fl (\<lambda>x. x) df \<and>
   (\<forall>s. float_or s 1 \<noteq> Fin 0 \<and> (s = Fin 0 \<longrightarrow> float_or s 1 = Fin 1) \<and>
        (s \<noteq> Fin 0 \<longrightarrow> float_or s 1 = s))"
  by (simp add: exact_instances)
     (simp add: latency_std_fl_def loss_std_fl_def float_or_def z_latency_fl_def z_loss_fl_def
        z_scores_fl_def)

subsection \<open>Evaluating binary64\<close>

lemma floor_log2:
  assumes "2 powr of_int e \<le> \<bar>x\<bar>" and "\<bar>x\<bar> < 2 powr (of_int e + 1)"
  shows "\<lfloor>log 2 \<bar>x\<bar>\<rfloor> = e"
proof -
  have pos: "0 < \<bar>x\<bar>"
    using assms(1) by (smt (verit) powr_gt_zero)
  have "of_int e \<le> log 2 \<bar>x\<bar>"
    using assms(1) pos by (simp add: le_log_iff)
  moreover have "log 2 \<bar>x\<bar> < of_int e + 1"
    using assms(2) pos by (simp add: log_less_iff)
  ultimately show ?thesis
    by (simp add: floor_eq_iff)
qed

lemma binary64_eval:
  assumes "2 powr of_int e \<le> \<bar>x\<bar>" and "\<bar>x\<bar> < 2 powr (of_int e + 1)" and "- 1022 \<le> e"
  shows "binary64 x =
         of_int (round_half_even (x / 2 powr (of_int e - 52))) * 2 powr (of_int e - 52)"
proof -
  have "x \<noteq> 0"
    using assms(1) by (smt (verit) powr_gt_zero)
  moreover have "max \<lfloor>log 2 \<bar>x\<bar>\<rfloor> (- 1022) = e"
    using floor_log2[OF assms(1,2)] assms(3) by simp
  ultimately show ?thesis
    by (simp add: binary64_def Let_def)
qed

lemma two_powr_neg: "2 powr (- real n) = 1 / (2 :: real) ^ n"
  by (simp add: powr_minus powr_realpow inverse_eq_divide)

lemma binary64_up:
  assumes "2 ^ k \<le> \<bar>x\<bar>" and "\<bar>x\<bar> < 2 * 2 ^ k" and "k \<le> 52"
  shows "binary64 x = of_int (round_half_even (x * 2 ^ (52 - k))) / 2 ^ (52 - k)"
proof -
  have a: "2 powr of_int (int k) = (2 :: real) ^ k"
    by (simp add: powr_realpow)
  have b: "2 powr (of_int (int k) + 1) = (2 :: real) * 2 ^ k"
    by (simp add: powr_add powr_realpow)
  have "of_int (int k) - (52 :: real) = - real (52 - k)"
    using assms(3) by simp
  then have c: "2 powr (of_int (int k) - 52) = 1 / (2 :: real) ^ (52 - k)"
    by (simp only: two_powr_neg)
  have "binary64 x =
         of_int (round_half_even (x / 2 powr (of_int (int k) - 52))) * 2 powr (of_int (int k) - 52)"
  proof (rule binary64_eval)
    show "2 powr of_int (int k) \<le> \<bar>x\<bar>"
      unfolding a by (rule assms(1))
    show "\<bar>x\<bar> < 2 powr (of_int (int k) + 1)"
      unfolding b by (rule assms(2))
    show "- 1022 \<le> int k"
      by simp
  qed
  then show ?thesis
    unfolding c by simp
qed

lemma binary64_down:
  assumes "1 / 2 ^ k \<le> \<bar>x\<bar>" and "\<bar>x\<bar> < 2 / 2 ^ k" and "k \<le> 1022"
  shows "binary64 x = of_int (round_half_even (x * 2 ^ (k + 52))) / 2 ^ (k + 52)"
proof -
  have "real_of_int (- int k) = - real k"
    by simp
  then have a: "2 powr of_int (- int k) = 1 / (2 :: real) ^ k"
    by (simp only: two_powr_neg)
  have "2 powr (of_int (- int k) + 1) = 2 powr of_int (- int k) * (2 :: real) powr 1"
    by (rule powr_add)
  then have b: "2 powr (of_int (- int k) + 1) = 2 / (2 :: real) ^ k"
    unfolding a by simp
  have "of_int (- int k) - (52 :: real) = - real (k + 52)"
    by simp
  then have c: "2 powr (of_int (- int k) - 52) = 1 / (2 :: real) ^ (k + 52)"
    by (simp only: two_powr_neg)
  have "binary64 x =
         of_int (round_half_even (x / 2 powr (of_int (- int k) - 52))) *
           2 powr (of_int (- int k) - 52)"
  proof (rule binary64_eval)
    show "2 powr of_int (- int k) \<le> \<bar>x\<bar>"
      unfolding a by (rule assms(1))
    show "\<bar>x\<bar> < 2 powr (of_int (- int k) + 1)"
      unfolding b by (rule assms(2))
    show "- 1022 \<le> - int k"
      using assms(3) by simp
  qed
  then show ?thesis
    unfolding c by simp
qed

lemma binary64_zero: "binary64 0 = 0"
  by (simp add: binary64_def)

lemma fsum2: "fsum fl [a, b] = fl (fl (0 + a) + b)"
  by (simp only: fsum_def foldl.simps)

lemma fsum3: "fsum fl [a, b, c] = fl (fl (fl (0 + a) + b) + c)"
  by (simp only: fsum_def foldl.simps)

lemma std2:
  "series_std_fl fl 0 [a, b] =
     Fin (fl (sqrt (fl (fsum fl
       [fl ((fl (fl (fsum fl [a, b] / 2) - a))\<^sup>2),
        fl ((fl (fl (fsum fl [a, b] / 2) - b))\<^sup>2)] / 2))))"
  by (simp add: series_std_fl_def Let_def)

lemma std3:
  "series_std_fl fl 0 [a, b, c] =
     Fin (fl (sqrt (fl (fsum fl
       [fl ((fl (fl (fsum fl [a, b, c] / 3) - a))\<^sup>2),
        fl ((fl (fl (fsum fl [a, b, c] / 3) - b))\<^sup>2),
        fl ((fl (fl (fsum fl [a, b, c] / 3) - c))\<^sup>2)] / 3))))"
  by (simp add: series_std_fl_def Let_def)

lemma mean2: "series_mean_fl fl [a, b] = Fin (fl (fsum fl [a, b] / 2))"
  by (simp add: series_mean_fl_def)

lemma mean3: "series_mean_fl fl [a, b, c] = Fin (fl (fsum fl [a, b, c] / 3))"
  by (simp add: series_mean_fl_def)

text \<open>Twice the latency 50: sum 100, mean 50, deviations 0.\<close>

lemma sum_fifties: "fsum binary64 [50, 50] = 100"
proof -
  have "binary64 (0 + 50) = 50"
    by (subst binary64_up[of 5]) (simp_all add: round_half_even_def)
  moreover have "binary64 (50 + 50) = 100"
    by (subst binary64_up[of 6]) (simp_all add: round_half_even_def)
  ultimately show ?thesis
    by (simp only: fsum2)
qed

lemma mean_fifties: "binary64 (fsum binary64 [50, 50] / 2) = 50"
  unfolding sum_fifties
  by (subst binary64_up[of 5]) (simp_all add: round_half_even_def)

lemma sum_sq_fifties: "fsum binary64 [0, 0] = 0"
  by (simp add: fsum2 binary64_zero)

lemma std_fifties: "series_std_fl binary64 0 [50, 50] = Fin 0"
proof -
  have dev: "binary64 (50 - 50) = 0" and sq: "binary64 (0\<^sup>2) = 0"
    and var: "binary64 (0 / 2) = 0"
    by (simp_all add: binary64_zero)
  show ?thesis
    by (simp only: std2 mean_fifties dev sq sum_sq_fifties var real_sqrt_zero binary64_zero)
qed

lemma z_fifties:
  "float_round binary64 (float_div (float_round binary64
      (float_sub (Fin 50) (series_mean_fl binary64 [50, 50]))) (Fin 1)) = Fin 0"
  by (simp add: mean2 mean_fifties float_round_def binary64_zero)

theorem computed_zero_std_is_replaced_by_one_witness:
  "series_std_fl binary64 0 (map latency_ms (rows fifty_twice)) = Fin 0 \<and>
   latency_std_fl binary64 fifty_twice = Fin 1 \<and>
   z_latency_fl binary64 fifty_twice = [Fin 0, Fin 0]"
proof -
  have col: "map latency_ms (rows fifty_twice) = [50, 50]"
    by (simp add: fifty_twice_def frame_of_def sample_record_def)
  have zero: "series_std_fl binary64 0 (map latency_ms (rows fifty_twice)) = Fin 0"
    unfolding col by (rule std_fifties)
  have one: "latency_std_fl binary64 fifty_twice = Fin 1"
    using computed_zero_std_is_replaced_by_one
      [of binary64 fifty_twice, THEN conjunct2, THEN conjunct2, THEN conjunct1] zero
    by (rule mp)
  have z: "z_latency_fl binary64 fifty_twice = [Fin 0, Fin 0]"
    unfolding z_latency_fl_def one col z_scores_fl_def list.map z_fifties by (rule refl)
  show ?thesis
    by (intro conjI zero one z)
qed

text \<open>Three times the binary64 value of 0.1, step by step.\<close>

lemma tenth_is_binary64: "binary64 (1 / 10) = tenth"
  by (subst binary64_down[of 4]) (simp_all add: tenth_def round_half_even_def)

lemma sum_tenths: "fsum binary64 [tenth, tenth, tenth] = 5404319552844596 / 2 ^ 54"
proof -
  have "binary64 (0 + tenth) = tenth"
    by (subst binary64_down[of 4]) (simp_all add: tenth_def round_half_even_def)
  moreover have "binary64 (tenth + tenth) = 7205759403792794 / 2 ^ 55"
    by (subst binary64_down[of 3]) (simp_all add: tenth_def round_half_even_def)
  moreover have "binary64 (7205759403792794 / 2 ^ 55 + tenth) = 5404319552844596 / 2 ^ 54"
    by (subst binary64_down[of 2]) (simp_all add: tenth_def round_half_even_def)
  ultimately show ?thesis
    by (simp only: fsum3)
qed

lemma mean_tenths:
  "binary64 (fsum binary64 [tenth, tenth, tenth] / 3) = 7205759403792795 / 2 ^ 56"
  unfolding sum_tenths
  by (subst binary64_down[of 4]) (simp_all add: round_half_even_def)

lemma dev_tenths: "binary64 (7205759403792795 / 2 ^ 56 - tenth) = 1 / 2 ^ 56"
  by (subst binary64_down[of 56]) (simp_all add: tenth_def round_half_even_def)

lemma sq_tenths: "binary64 ((1 / 2 ^ 56)\<^sup>2) = 1 / 2 ^ 112"
  by (subst binary64_down[of 112]) (simp_all add: round_half_even_def power2_eq_square)

lemma sum_sq_tenths:
  "fsum binary64 [1 / 2 ^ 112, 1 / 2 ^ 112, 1 / 2 ^ 112] = 3 / 2 ^ 112"
proof -
  have "binary64 (0 + 1 / 2 ^ 112) = 1 / 2 ^ 112"
    by (subst binary64_down[of 112]) (simp_all add: round_half_even_def)
  moreover have "binary64 (1 / 2 ^ 112 + 1 / 2 ^ 112) = 2 / 2 ^ 112"
    by (subst binary64_down[of 111]) (simp_all add: round_half_even_def)
  moreover have "binary64 (2 / 2 ^ 112 + 1 / 2 ^ 112) = 3 / 2 ^ 112"
    by (subst binary64_down[of 111]) (simp_all add: round_half_even_def)
  ultimately show ?thesis
    by (simp only: fsum3)
qed

lemma var_tenths: "binary64 (3 / 2 ^ 112 / 3) = 1 / 2 ^ 112"
  by (subst binary64_down[of 112]) (simp_all add: round_half_even_def)

lemma sqrt_tenths: "sqrt (1 / 2 ^ 112) = 1 / 2 ^ 56"
  by (rule real_sqrt_unique) (simp_all add: power2_eq_square)

lemma root_tenths: "binary64 (1 / 2 ^ 56) = 1 / 2 ^ 56"
  by (subst binary64_down[of 56]) (simp_all add: round_half_even_def)

lemma std_tenths: "series_std_fl binary64 0 [tenth, tenth, tenth] = Fin (1 / 2 ^ 56)"
  by (simp only: std3 mean_tenths dev_tenths sq_tenths sum_sq_tenths var_tenths sqrt_tenths
      root_tenths)

lemma z_tenths:
  "float_round binary64 (float_div (float_round binary64
      (float_sub (Fin tenth) (series_mean_fl binary64 [tenth, tenth, tenth]))) (Fin (1 / 2 ^ 56))) =
   Fin (- 1)"
proof -
  have a: "binary64 (tenth - 7205759403792795 / 2 ^ 56) = - (1 / 2 ^ 56)"
    by (subst binary64_down[of 56]) (simp_all add: tenth_def round_half_even_def)
  have b: "binary64 (- 1) = - 1"
    by (subst binary64_up[of 0]) (simp_all add: round_half_even_def)
  have "float_round binary64
      (float_sub (Fin tenth) (series_mean_fl binary64 [tenth, tenth, tenth])) =
      Fin (- (1 / 2 ^ 56))"
    by (simp only: mean3 mean_tenths float_sub.simps float_round_def float64.case a)
  then show ?thesis
    by (simp add: float_round_def b)
qed

text \<open>
  C4, as the specification has it, fails: the three latencies of \<open>three_tenths\<close> are
  the same number, the binary64 value of 0.1, and their population standard deviation is
  0. In binary64 the sum of the three is rounded up, the mean is one unit in the last
  place above the value, and the standard deviation is computed as \<open>2 ^ - 56\<close>, not 0:
  this number is the divisor, not 1, and the three z-scores are - 1.
\<close>

theorem identical_tenths_counterexample:
  "binary64 (1 / 10) = tenth \<and>
   pop_std (map latency_ms (rows three_tenths)) = 0 \<and>
   series_std_fl binary64 0 (map latency_ms (rows three_tenths)) = Fin (1 / 2 ^ 56) \<and>
   latency_std_fl binary64 three_tenths = Fin (1 / 2 ^ 56) \<and>
   latency_std_fl binary64 three_tenths \<noteq> Fin 1 \<and>
   z_latency_fl binary64 three_tenths = [Fin (- 1), Fin (- 1), Fin (- 1)]"
proof -
  have col: "map latency_ms (rows three_tenths) = [tenth, tenth, tenth]"
    by (simp add: three_tenths_def frame_of_def sample_record_def)
  have pop: "pop_std [tenth, tenth, tenth] = 0"
    by (simp add: pop_std_def pop_mean_def)
  have std: "latency_std_fl binary64 three_tenths = Fin (1 / 2 ^ 56)"
    unfolding latency_std_fl_def col std_tenths by (simp add: float_or_def)
  have z: "z_latency_fl binary64 three_tenths = [Fin (- 1), Fin (- 1), Fin (- 1)]"
    unfolding z_latency_fl_def std col z_scores_fl_def list.map z_tenths by (rule refl)
  have ne: "Fin (1 / 2 ^ 56) \<noteq> Fin 1"
    by simp
  show ?thesis
    unfolding col std pop std_tenths using tenth_is_binary64 z ne
    unfolding std by (intro conjI refl)
qed

subsection \<open>A table of one row\<close>

text \<open>
  C10. For a table of one row, the population standard deviation of either column is 0,
  the divisor is 1 and both z-scores are 0, so neither z-score condition holds, and the
  record is flagged and selected exactly when it exceeds one of the three thresholds.
\<close>

theorem single_row_flagged_iff_fixed_threshold:
  assumes "rows df = [r]"
  shows "series_std 0 (map latency_ms (rows df)) = Fin 0 \<and>
         series_std 0 (map packet_loss_pct (rows df)) = Fin 0 \<and>
         latency_std df = Fin 1 \<and> loss_std df = Fin 1 \<and>
         z_latency df = [Fin 0] \<and> z_loss df = [Fin 0] \<and>
         floats_gt (z_latency df) (5 / 2) = [False] \<and>
         floats_gt (z_loss df) (5 / 2) = [False] \<and>
         anomaly_mask df lt pt ct = [exceeds_fixed lt pt ct r] \<and>
         loc_mask (rows df) (anomaly_mask df lt pt ct) =
           (if exceeds_fixed lt pt ct r then [r] else [])"
proof -
  have std: "series_std 0 (map latency_ms (rows df)) = Fin 0"
      "series_std 0 (map packet_loss_pct (rows df)) = Fin 0"
    by (simp_all add: assms series_std_def)
  then have div: "latency_std df = Fin 1" "loss_std df = Fin 1"
    by (simp_all add: latency_std_def loss_std_def float_or_def)
  have z: "z_latency df = [Fin 0]" "z_loss df = [Fin 0]"
    unfolding z_latency_def z_loss_def div
    by (simp_all add: assms z_scores_def series_mean_def)
  then have gt: "floats_gt (z_latency df) (5 / 2) = [False]"
      "floats_gt (z_loss df) (5 / 2) = [False]"
    by (simp_all add: floats_gt_def)
  have mask: "anomaly_mask df lt pt ct = [exceeds_fixed lt pt ct r]"
    unfolding anomaly_mask_def gt
    by (simp add: assms series_gt_def mask_or_def exceeds_fixed_def)
  have "loc_mask (rows df) (anomaly_mask df lt pt ct) =
          (if exceeds_fixed lt pt ct r then [r] else [])"
    unfolding mask by (simp add: assms loc_mask_def)
  with std div z gt mask show ?thesis
    by simp
qed

theorem single_row_flagged_iff_fixed_threshold_witness:
  "rows (frame_of [sample_record ''edge-09'' ''ap-south'' 500 0 50]) =
     [sample_record ''edge-09'' ''ap-south'' 500 0 50] \<and>
   z_latency (frame_of [sample_record ''edge-09'' ''ap-south'' 500 0 50]) = [Fin 0] \<and>
   anomaly_mask (frame_of [sample_record ''edge-09'' ''ap-south'' 500 0 50]) 120 2 90 = [True] \<and>
   anomaly_mask (frame_of [sample_record ''edge-09'' ''ap-south'' 500 0 50]) 600 2 90 = [False]"
proof -
  let ?r = "sample_record ''edge-09'' ''ap-south'' 500 0 50"
  have h: "rows (frame_of [?r]) = [?r]"
    by (simp add: frame_of_def)
  have z: "z_latency (frame_of [?r]) = [Fin 0]"
    using single_row_flagged_iff_fixed_threshold [OF h, of 120 2 90]
    by (elim conjE)
  have m1: "anomaly_mask (frame_of [?r]) 120 2 90 = [exceeds_fixed 120 2 90 ?r]"
    using single_row_flagged_iff_fixed_threshold [OF h, of 120 2 90]
    by (elim conjE)
  have m2: "anomaly_mask (frame_of [?r]) 600 2 90 = [exceeds_fixed 600 2 90 ?r]"
    using single_row_flagged_iff_fixed_threshold [OF h, of 600 2 90]
    by (elim conjE)
  have e1: "exceeds_fixed 120 2 90 ?r = True" and e2: "exceeds_fixed 600 2 90 ?r = False"
    by (simp_all add: exceeds_fixed_def sample_record_def)
  show ?thesis
    unfolding m1 m2 e1 e2 by (intro conjI refl h z)
qed


subsection \<open>\<open>summarize_reliability_metrics\<close>\<close>

lemma series_mean_const:
  assumes "xs \<noteq> []" and "\<And>x. x \<in> set xs \<Longrightarrow> x = c"
  shows "series_mean xs = Fin c"
proof -
  from assms(2) have "xs = replicate (length xs) c"
    by (simp add: replicate_length_same)
  then have "sum_list xs = real (length xs) * c"
    by (metis sum_list_replicate)
  with assms(1) show ?thesis
    by (simp add: series_mean_def)
qed

lemma group_mean_map:
  "group_mean (map f rs) (map h rs) g = series_mean (map h (filter (\<lambda>r. f r = g) rs))"
proof -
  have "map snd (filter (\<lambda>p. fst p = g) (zip (map f rs) (map h rs))) =
        map h (filter (\<lambda>r. f r = g) rs)"
    by (induction rs) simp_all
  then show ?thesis
    by (simp add: group_mean_def group_rows_def)
qed

lemma group_mean_const:
  assumes "g \<in> f ` set rs" and "\<And>r. r \<in> set rs \<Longrightarrow> f r = g \<Longrightarrow> h r = c"
  shows "group_mean (map f rs) (map h rs) g = Fin c"
proof -
  from assms(1) have "map h (filter (\<lambda>r. f r = g) rs) \<noteq> []"
    by (auto simp: filter_empty_conv)
  moreover have "x = c" if "x \<in> set (map h (filter (\<lambda>r. f r = g) rs))" for x
    using that assms(2) by auto
  ultimately show ?thesis
    unfolding group_mean_map by (rule series_mean_const)
qed

text \<open>The call, step by step: the copy goes to the end of the store and gets the two
  columns; the frames of the store before the call stay as they are.\<close>

lemma summarize_result:
  "summarize_reliability_metrics st a =
     Inr (st @ [(st ! a)\<lparr>extra :=
                  AList.update ''performance_score''
                    (rsub 100 (div_scalar (clip_upper 200 (map latency_ms (rows (st ! a)))) 2))
                    (AList.update ''uptime_score''
                       (rsub 100 (clip_upper 5 (map packet_loss_pct (rows (st ! a)))))
                       (extra (st ! a)))\<rparr>],
          map (\<lambda>g. \<lparr>rs_region = g,
                     uptime_score =
                       group_mean (map region (rows (st ! a)))
                         (rsub 100 (clip_upper 5 (map packet_loss_pct (rows (st ! a))))) g,
                     performance_score =
                       group_mean (map region (rows (st ! a)))
                         (rsub 100 (div_scalar (clip_upper 200 (map latency_ms (rows (st ! a)))) 2)) g,
                     avg_cpu_utilization_pct =
                       group_mean (map region (rows (st ! a)))
                         (map cpu_utilization_pct (rows (st ! a))) g\<rparr>)
            (group_keys id (map region (rows (st ! a)))))"
  by (simp add: summarize_reliability_metrics_def df_copy_def set_column_def Let_def
      update_conv)

lemma uptime_column:
  "rsub 100 (clip_upper 5 (map packet_loss_pct rs)) = map (\<lambda>r. 100 - min (packet_loss_pct r) 5) rs"
  by (simp add: rsub_def clip_upper_def o_def)


text \<open>
  C9. The call returns, and the frame of the caller is after the call what it was before:
  its rows with all their fields and its further columns, so no column \<open>uptime_score\<close> or
  \<open>performance_score\<close> has come to it; the same holds for every frame of the store of
  before the call. The two columns are in the copy, a new frame.
\<close>

theorem summarize_leaves_input_unchanged:
  assumes "caller_df < length st"
  shows "\<exists>st' summary.
           summarize_reliability_metrics st caller_df = Inr (st', summary) \<and>
           st' ! caller_df = st ! caller_df \<and>
           rows (st' ! caller_df) = rows (st ! caller_df) \<and>
           extra (st' ! caller_df) = extra (st ! caller_df) \<and>
           take (length st) st' = st \<and>
           length st' = Suc (length st) \<and>
           map_of (extra (st' ! length st)) ''uptime_score'' \<noteq> None \<and>
           map_of (extra (st' ! length st)) ''performance_score'' \<noteq> None"
  using assms
  by (simp add: summarize_result nth_append update_conv)

theorem summarize_leaves_input_unchanged_witness:
  "(0 :: nat) < length [frame_of [sample_record ''edge-01'' ''us-east'' 50 7 70]] \<and>
   (\<exists>st' summary.
      summarize_reliability_metrics
        [frame_of [sample_record ''edge-01'' ''us-east'' 50 7 70]] 0 = Inr (st', summary) \<and>
      st' ! 0 = frame_of [sample_record ''edge-01'' ''us-east'' 50 7 70] \<and>
      extra (st' ! 0) = [])"
proof -
  let ?f = "frame_of [sample_record ''edge-01'' ''us-east'' 50 7 70]"
  have h: "(0 :: nat) < length [?f]"
    by simp
  have e: "[?f] ! 0 = ?f" "extra ?f = []"
    by (simp_all add: frame_of_def)
  from summarize_leaves_input_unchanged [OF h]
  obtain st' summary where "summarize_reliability_metrics [?f] 0 = Inr (st', summary)"
    and "st' ! 0 = [?f] ! 0" and "extra (st' ! 0) = extra ([?f] ! 0)"
    by (elim exE conjE)
  then have "summarize_reliability_metrics [?f] 0 = Inr (st', summary) \<and>
      st' ! 0 = ?f \<and> extra (st' ! 0) = []"
    unfolding e by (intro conjI)
  then have "\<exists>st' summary. summarize_reliability_metrics [?f] 0 = Inr (st', summary) \<and>
      st' ! 0 = ?f \<and> extra (st' ! 0) = []"
    by (intro exI)
  with h show ?thesis
    by (intro conjI)
qed

text \<open>
  C7. In the column \<open>uptime_score\<close> that the call computes, the score of a record is 100
  when its packet loss is 0 and 95 when its packet loss is at least 5. The summary has a
  row for each region of the table; a region all of whose records have packet loss 0
  reports the uptime score 100, and one all of whose records have packet loss at least 5
  reports 95.
\<close>

theorem uptime_score_100_and_capped_95:
  assumes "caller_df < length st"
  shows "\<exists>st' summary uptime.
           summarize_reliability_metrics st caller_df = Inr (st', summary) \<and>
           map_of (extra (st' ! length st)) ''uptime_score'' = Some uptime \<and>
           length uptime = length (rows (st ! caller_df)) \<and>
           (\<forall>i < length uptime.
              (packet_loss_pct (rows (st ! caller_df) ! i) = 0 \<longrightarrow> uptime ! i = 100) \<and>
              (5 \<le> packet_loss_pct (rows (st ! caller_df) ! i) \<longrightarrow> uptime ! i = 95)) \<and>
           set (map rs_region summary) = region ` set (rows (st ! caller_df)) \<and>
           (\<forall>s \<in> set summary.
              ((\<forall>r \<in> set (rows (st ! caller_df)).
                  region r = rs_region s \<longrightarrow> packet_loss_pct r = 0) \<longrightarrow>
                 uptime_score s = Fin 100) \<and>
              ((\<forall>r \<in> set (rows (st ! caller_df)).
                  region r = rs_region s \<longrightarrow> 5 \<le> packet_loss_pct r) \<longrightarrow>
                 uptime_score s = Fin 95))"
proof -
  let ?rs = "rows (st ! caller_df)"
  let ?up = "map (\<lambda>r. 100 - min (packet_loss_pct r) 5) ?rs"
  obtain st' summary where ret: "summarize_reliability_metrics st caller_df = Inr (st', summary)"
    and col: "map_of (extra (st' ! length st)) ''uptime_score'' = Some ?up"
    and regs: "map rs_region summary = group_keys id (map region ?rs)"
    and ups: "map uptime_score summary =
                map (group_mean (map region ?rs) ?up) (group_keys id (map region ?rs))"
    by (simp add: summarize_result uptime_column update_conv o_def)
  have rec: "\<forall>i < length ?up.
      (packet_loss_pct (?rs ! i) = 0 \<longrightarrow> ?up ! i = 100) \<and>
      (5 \<le> packet_loss_pct (?rs ! i) \<longrightarrow> ?up ! i = 95)"
    by simp
  have keys: "set (map rs_region summary) = region ` set ?rs"
    unfolding regs by (simp add: set_group_keys)
  have row: "\<exists>g \<in> region ` set ?rs. rs_region s = g \<and>
      uptime_score s = group_mean (map region ?rs) ?up g" if "s \<in> set summary" for s
  proof -
    from that obtain i where i: "i < length summary" "s = summary ! i"
      by (auto simp: in_set_conv_nth)
    then have "rs_region s = map rs_region summary ! i"
      and "uptime_score s = map uptime_score summary ! i"
      by simp_all
    moreover from i regs have "i < length (group_keys id (map region ?rs))"
      by (metis length_map)
    ultimately have "rs_region s = group_keys id (map region ?rs) ! i"
      and "uptime_score s =
            group_mean (map region ?rs) ?up (group_keys id (map region ?rs) ! i)"
      and "group_keys id (map region ?rs) ! i \<in> set (group_keys id (map region ?rs))"
      unfolding regs ups by simp_all
    then show ?thesis
      by (auto simp: set_group_keys)
  qed
  have reg: "\<forall>s \<in> set summary.
      ((\<forall>r \<in> set ?rs. region r = rs_region s \<longrightarrow> packet_loss_pct r = 0) \<longrightarrow>
         uptime_score s = Fin 100) \<and>
      ((\<forall>r \<in> set ?rs. region r = rs_region s \<longrightarrow> 5 \<le> packet_loss_pct r) \<longrightarrow>
         uptime_score s = Fin 95)"
  proof (intro ballI conjI impI)
    fix s
    assume s: "s \<in> set summary"
      and zero: "\<forall>r \<in> set ?rs. region r = rs_region s \<longrightarrow> packet_loss_pct r = 0"
    from row[OF s] have g: "rs_region s \<in> region ` set ?rs"
      and u: "uptime_score s = group_mean (map region ?rs) ?up (rs_region s)"
      by auto
    have "group_mean (map region ?rs) ?up (rs_region s) = Fin 100"
      using g by (rule group_mean_const) (simp add: zero)
    with u show "uptime_score s = Fin 100"
      by simp
  next
    fix s
    assume s: "s \<in> set summary"
      and high: "\<forall>r \<in> set ?rs. region r = rs_region s \<longrightarrow> 5 \<le> packet_loss_pct r"
    from row[OF s] have g: "rs_region s \<in> region ` set ?rs"
      and u: "uptime_score s = group_mean (map region ?rs) ?up (rs_region s)"
      by auto
    have "group_mean (map region ?rs) ?up (rs_region s) = Fin 95"
      using g by (rule group_mean_const) (use high in \<open>auto simp: min_def\<close>)
    with u show "uptime_score s = Fin 95"
      by simp
  qed
  have "length ?up = length ?rs"
    by simp
  with ret col rec keys reg show ?thesis
    by blast
qed


theorem uptime_score_100_and_capped_95_witness:
  "(0 :: nat) < length [two_regions] \<and>
   (\<exists>st' summary. summarize_reliability_metrics [two_regions] 0 = Inr (st', summary) \<and>
      map rs_region summary = [''us-east'', ''us-west''] \<and>
      map uptime_score summary = [Fin 100, Fin 95])"
proof -
  have h: "(0 :: nat) < length [two_regions]"
    by simp
  have rs: "rows ([two_regions] ! 0) =
      [sample_record ''edge-01'' ''us-east'' 50 0 70,
       sample_record ''edge-02'' ''us-west'' 60 7 80,
       sample_record ''edge-03'' ''us-east'' 70 0 90]"
    by (simp add: two_regions_def frame_of_def)
  have ev: "map rs_region (snd (projr (summarize_reliability_metrics [two_regions] 0))) =
      [''us-east'', ''us-west'']"
    unfolding summarize_result rs
    by (simp add: group_keys_def sample_record_def o_def)
  from uptime_score_100_and_capped_95 [OF h]
  obtain st' summary where
    ret: "summarize_reliability_metrics [two_regions] 0 = Inr (st', summary)" and
    reg: "\<forall>s \<in> set summary.
      ((\<forall>r \<in> set (rows ([two_regions] ! 0)).
          region r = rs_region s \<longrightarrow> packet_loss_pct r = 0) \<longrightarrow>
         uptime_score s = Fin 100) \<and>
      ((\<forall>r \<in> set (rows ([two_regions] ! 0)).
          region r = rs_region s \<longrightarrow> 5 \<le> packet_loss_pct r) \<longrightarrow>
         uptime_score s = Fin 95)"
    by blast
  from ev ret have "map rs_region summary = [''us-east'', ''us-west'']"
    by simp
  then obtain s1 s2 where summary: "summary = [s1, s2]"
    and r1: "rs_region s1 = ''us-east''" and r2: "rs_region s2 = ''us-west''"
    by (auto simp: map_eq_Cons_conv)
  have "\<forall>r \<in> set (rows ([two_regions] ! 0)). region r = rs_region s1 \<longrightarrow> packet_loss_pct r = 0"
    unfolding rs r1 by (simp add: sample_record_def)
  with reg have u1: "uptime_score s1 = Fin 100"
    by (simp add: summary)
  have "\<forall>r \<in> set (rows ([two_regions] ! 0)). region r = rs_region s2 \<longrightarrow> 5 \<le> packet_loss_pct r"
    unfolding rs r2 by (simp add: sample_record_def)
  with reg have u2: "uptime_score s2 = Fin 95"
    by (simp add: summary)
  from ret r1 r2 u1 u2 have
    "summarize_reliability_metrics [two_regions] 0 = Inr (st', summary) \<and>
      map rs_region summary = [''us-east'', ''us-west''] \<and>
      map uptime_score summary = [Fin 100, Fin 95]"
    by (simp add: summary)
  then have "\<exists>st' summary. summarize_reliability_metrics [two_regions] 0 = Inr (st', summary) \<and>
      map rs_region summary = [''us-east'', ''us-west''] \<and>
      map uptime_score summary = [Fin 100, Fin 95]"
    by (intro exI)
  with h show ?thesis
    by (intro conjI)
qed

subsection \<open>The empty table\<close>

text \<open>
  C5. For a table of no rows, \<open>compute_latency_stats\<close> returns the empty table,
  \<open>summarize_reliability_metrics\<close> returns the empty summary, and
  \<open>detect_performance_bottlenecks\<close> returns the empty list, whatever the thresholds; each
  of the three returns, none raises.
\<close>

theorem empty_table_gives_empty_results:
  assumes "caller_df < length st" and "rows (st ! caller_df) = []"
  shows "compute_latency_stats (st ! caller_df) = [] \<and>
         (\<exists>st'. summarize_reliability_metrics st caller_df = Inr (st', [])) \<and>
         detect_performance_bottlenecks (st ! caller_df) lt pt ct = Inr []"
proof (intro conjI)
  show "compute_latency_stats (st ! caller_df) = []"
    by (simp add: compute_latency_stats_def group_keys_def assms(2))
  show "\<exists>st'. summarize_reliability_metrics st caller_df = Inr (st', [])"
    by (simp add: summarize_result group_keys_def assms(2))
  show "detect_performance_bottlenecks (st ! caller_df) lt pt ct = Inr []"
    by (simp add: detect_performance_bottlenecks_def anomaly_mask_rows loc_mask_def assms(2))
qed

theorem empty_table_gives_empty_results_witness:
  "(0 :: nat) < length [frame_of []] \<and> rows ([frame_of []] ! 0) = [] \<and>
   compute_latency_stats (frame_of []) = [] \<and>
   (\<exists>st'. summarize_reliability_metrics [frame_of []] 0 = Inr (st', [])) \<and>
   detect_performance_bottlenecks (frame_of []) 120 2 90 = Inr []"
proof -
  have h: "(0 :: nat) < length [frame_of []]" and e: "rows ([frame_of []] ! 0) = []"
    by (simp_all add: frame_of_def)
  have n: "[frame_of []] ! 0 = frame_of []"
    by simp
  from empty_table_gives_empty_results [OF h e, of 120 2 90, unfolded n] h e
  show ?thesis
    by (intro conjI) (elim conjE, assumption)+
qed

end
